theory Spec2Isabelle
  imports Main "HOL-Library.Word"
begin

unbundle bit_operations_syntax

type_synonym byte = "8 word"
type_synonym jsstring = "16 word list"

definition js :: "string \<Rightarrow> jsstring" where
  "js s = map (\<lambda>c. of_nat (of_char c)) s"

datatype error = Error jsstring | TypeError jsstring | AppError jsstring nat

definition is_high :: "16 word \<Rightarrow> bool" where
  "is_high u = (0xD800 \<le> unat u \<and> unat u \<le> 0xDBFF)"

definition is_low :: "16 word \<Rightarrow> bool" where
  "is_low u = (0xDC00 \<le> unat u \<and> unat u \<le> 0xDFFF)"

definition code_point :: "16 word \<Rightarrow> 16 word \<Rightarrow> nat" where
  "code_point h l = 0x10000 + (unat h - 0xD800) * 0x400 + (unat l - 0xDC00)"

definition utf8_bytes :: "nat \<Rightarrow> byte list" where
  "utf8_bytes cp =
     (if cp < 0x80 then [of_nat cp]
      else if cp < 0x800 then [of_nat (0xC0 + cp div 0x40), of_nat (0x80 + cp mod 0x40)]
      else if cp < 0x10000 then
        [of_nat (0xE0 + cp div 0x1000), of_nat (0x80 + cp div 0x40 mod 0x40),
         of_nat (0x80 + cp mod 0x40)]
      else
        [of_nat (0xF0 + cp div 0x40000), of_nat (0x80 + cp div 0x1000 mod 0x40),
         of_nat (0x80 + cp div 0x40 mod 0x40), of_nat (0x80 + cp mod 0x40)])"

fun utf8_encode :: "jsstring \<Rightarrow> byte list" where
  "utf8_encode [] = []"
| "utf8_encode (u # us) =
     (if is_high u then
        (case us of
           [] \<Rightarrow> utf8_bytes 0xFFFD
         | v # vs \<Rightarrow>
             if is_low v then utf8_bytes (code_point u v) @ utf8_encode vs
             else utf8_bytes 0xFFFD @ utf8_encode us)
      else if is_low u then utf8_bytes 0xFFFD @ utf8_encode us
      else utf8_bytes (unat u) @ utf8_encode us)"

definition utf16_units :: "nat \<Rightarrow> jsstring" where
  "utf16_units cp =
     (if cp < 0x10000 then [of_nat cp]
      else [of_nat (0xD800 + (cp - 0x10000) div 0x400),
            of_nat (0xDC00 + (cp - 0x10000) mod 0x400)])"

fun utf8_decoder :: "nat \<Rightarrow> nat \<Rightarrow> nat \<Rightarrow> nat \<Rightarrow> byte list \<Rightarrow> jsstring" where
  "utf8_decoder needed cp lo hi [] = (if needed = 0 then [] else [0xFFFD])"
| "utf8_decoder needed cp lo hi (b # bs) =
     (let x = unat b in
      if needed = 0 then
        (if x < 0x80 then of_nat x # utf8_decoder 0 0 0x80 0xBF bs
         else if 0xC2 \<le> x \<and> x \<le> 0xDF then utf8_decoder 1 (x - 0xC0) 0x80 0xBF bs
         else if 0xE0 \<le> x \<and> x \<le> 0xEF then
           utf8_decoder 2 (x - 0xE0) (if x = 0xE0 then 0xA0 else 0x80)
             (if x = 0xED then 0x9F else 0xBF) bs
         else if 0xF0 \<le> x \<and> x \<le> 0xF4 then
           utf8_decoder 3 (x - 0xF0) (if x = 0xF0 then 0x90 else 0x80)
             (if x = 0xF4 then 0x8F else 0xBF) bs
         else 0xFFFD # utf8_decoder 0 0 0x80 0xBF bs)
      else if x < lo \<or> hi < x then 0xFFFD # utf8_decoder 0 0 0x80 0xBF (b # bs)
      else if needed = 1 then
        utf16_units (cp * 0x40 + (x - 0x80)) @ utf8_decoder 0 0 0x80 0xBF bs
      else utf8_decoder (needed - 1) (cp * 0x40 + (x - 0x80)) 0x80 0xBF bs)"

definition utf8_decode :: "byte list \<Rightarrow> jsstring" where
  "utf8_decode bs = utf8_decoder 0 0 0x80 0xBF bs"

definition b64_char :: "nat \<Rightarrow> 16 word" where
  "b64_char i =
     of_nat (if i < 26 then 65 + i else if i < 52 then 71 + i else if i < 62 then i - 4
             else if i = 62 then 43 else 47)"

definition unbase64 :: "16 word \<Rightarrow> nat option" where
  "unbase64 c =
     (let x = unat c in
      if 65 \<le> x \<and> x \<le> 90 then Some (x - 65)
      else if 97 \<le> x \<and> x \<le> 122 then Some (x - 71)
      else if 48 \<le> x \<and> x \<le> 57 then Some (x + 4)
      else if x = 43 \<or> x = 45 then Some 62
      else if x = 47 \<or> x = 95 then Some 63
      else None)"

fun base64_encode :: "byte list \<Rightarrow> jsstring" where
  "base64_encode (a # b # c # rest) =
     b64_char (unat a div 4) # b64_char (unat a mod 4 * 16 + unat b div 16) #
     b64_char (unat b mod 16 * 4 + unat c div 64) # b64_char (unat c mod 64) #
     base64_encode rest"
| "base64_encode [a, b] =
     [b64_char (unat a div 4), b64_char (unat a mod 4 * 16 + unat b div 16),
      b64_char (unat b mod 16 * 4), 61]"
| "base64_encode [a] = [b64_char (unat a div 4), b64_char (unat a mod 4 * 16), 61, 61]"
| "base64_encode [] = []"

fun sextets :: "jsstring \<Rightarrow> nat list" where
  "sextets [] = []"
| "sextets (c # cs) =
     (case unbase64 c of
        Some v \<Rightarrow> v # sextets cs
      | None \<Rightarrow> if c = 61 then [] else sextets cs)"

fun unsextets :: "nat list \<Rightarrow> byte list" where
  "unsextets (p # q # r # s # rest) =
     of_nat (p * 4 + q div 16) # of_nat (q mod 16 * 16 + r div 4) # of_nat (r mod 4 * 64 + s) #
     unsextets rest"
| "unsextets [p, q, r] = [of_nat (p * 4 + q div 16), of_nat (q mod 16 * 16 + r div 4)]"
| "unsextets [p, q] = [of_nat (p * 4 + q div 16)]"
| "unsextets [p] = []"
| "unsextets [] = []"

definition base64_decode :: "jsstring \<Rightarrow> byte list" where
  "base64_decode s = unsextets (sextets s)"



section \<open>Credential Vault: src/services/EncryptionService.js\<close>

text \<open>
  The service calls Node's \<^verbatim>\<open>crypto\<close> module with \<^verbatim>\<open>ENCRYPTION.ALGORITHM = 'aes-256-gcm'\<close>.
  The block cipher itself is outside the repository, so it is a parameter: a
  \<open>cipher_suite\<close> gives, for a key and a nonce, the keystream byte at each position
  (GCM encrypts in counter mode: ciphertext is plaintext XOR keystream) and, for a key, a
  nonce and a ciphertext, each of the 16 bytes of the authentication tag. Nothing is
  assumed about the two functions.
\<close>

record cipher_suite =
  keystream :: "byte list \<Rightarrow> byte list \<Rightarrow> nat \<Rightarrow> byte"
  tag_byte :: "byte list \<Rightarrow> byte list \<Rightarrow> byte list \<Rightarrow> nat \<Rightarrow> byte"

record vault =
  suite :: cipher_suite
  ENCRYPTION_KEY :: jsstring

text \<open>\<^verbatim>\<open>crypto.randomBytes(n)\<close>: the next \<open>n\<close> bytes of the process's entropy.\<close>

type_synonym entropy = "nat \<Rightarrow> byte"

definition randomBytes :: "nat \<Rightarrow> entropy \<Rightarrow> byte list \<times> entropy" where
  "randomBytes n e = (map e [0..<n], \<lambda>i. e (n + i))"

definition padEnd :: "nat \<Rightarrow> 16 word \<Rightarrow> jsstring \<Rightarrow> jsstring" where
  "padEnd n c s = s @ replicate (n - length s) c"

text \<open>\<^verbatim>\<open>this.key = Buffer.from(ENCRYPTION.KEY.padEnd(32, '!').slice(0, 32))\<close>\<close>

definition vault_key :: "vault \<Rightarrow> byte list" where
  "vault_key V = utf8_encode (take 32 (padEnd 32 0x21 (ENCRYPTION_KEY V)))"

text \<open>
  \<^verbatim>\<open>createCipheriv\<close> and \<^verbatim>\<open>createDecipheriv\<close> throw on a key that is not 32 bytes and on an
  empty nonce; \<^verbatim>\<open>setAuthTag\<close> throws on a tag length GCM does not allow.
\<close>

definition createCipheriv :: "byte list \<Rightarrow> byte list \<Rightarrow> error + unit" where
  "createCipheriv key iv =
     (if length key \<noteq> 32 then Inl (Error (js ''Invalid key length''))
      else if iv = [] then Inl (Error (js ''Invalid initialization vector''))
      else Inr ())"

definition createDecipheriv :: "byte list \<Rightarrow> byte list \<Rightarrow> error + unit" where
  "createDecipheriv key iv = createCipheriv key iv"

definition setAuthTag :: "byte list \<Rightarrow> error + unit" where
  "setAuthTag t =
     (if length t \<in> {4, 8, 12, 13, 14, 15, 16} then Inr ()
      else Inl (Error (js ''Invalid authentication tag length'')))"

definition gcm_crypt :: "cipher_suite \<Rightarrow> byte list \<Rightarrow> byte list \<Rightarrow> byte list \<Rightarrow> byte list" where
  "gcm_crypt S key iv data = map2 (XOR) data (map (keystream S key iv) [0..<length data])"

definition getAuthTag :: "cipher_suite \<Rightarrow> byte list \<Rightarrow> byte list \<Rightarrow> byte list \<Rightarrow> byte list" where
  "getAuthTag S key iv ct = map (tag_byte S key iv ct) [0..<16]"

text \<open>\<^verbatim>\<open>decipher.final()\<close> throws unless the tag set before is the tag of what was fed in.\<close>

definition tag_verifies :: "cipher_suite \<Rightarrow> byte list \<Rightarrow> byte list \<Rightarrow> byte list \<Rightarrow> byte list \<Rightarrow> bool" where
  "tag_verifies S key iv t ct = (t = take (length t) (getAuthTag S key iv ct))"


definition encrypt :: "vault \<Rightarrow> jsstring \<Rightarrow> entropy \<Rightarrow> (error + jsstring) \<times> entropy" where
  "encrypt V text e =
     (let (iv, e') = randomBytes 16 e in
      (case createCipheriv (vault_key V) iv of
         Inl _ \<Rightarrow> Inl (Error (js ''Failed to encrypt data''))
       | Inr _ \<Rightarrow>
           let encrypted = base64_encode (gcm_crypt (suite V) (vault_key V) iv (utf8_encode text));
               authTag = getAuthTag (suite V) (vault_key V) iv (base64_decode encrypted)
           in Inr (base64_encode (iv @ authTag @ base64_decode encrypted)),
       e'))"

text \<open>
  \<^verbatim>\<open>decrypt(encryptedData)\<close>: the first 16 bytes of the decoded blob are the nonce, the next
  16 the tag, the rest the ciphertext. \<^verbatim>\<open>update\<close> produces the plaintext before the tag
  is checked; \<^verbatim>\<open>final\<close> checks it and throws, and every throw becomes
  \<^verbatim>\<open>Error('Failed to decrypt data')\<close>.
\<close>

definition decrypt :: "vault \<Rightarrow> jsstring \<Rightarrow> error + jsstring" where
  "decrypt V encryptedData =
     (let data = base64_decode encryptedData;
          iv = take 16 data;
          authTag = take 16 (drop 16 data);
          encrypted = base64_encode (drop 32 data)
      in case createDecipheriv (vault_key V) iv of
           Inl _ \<Rightarrow> Inl (Error (js ''Failed to decrypt data''))
         | Inr _ \<Rightarrow>
             (case setAuthTag authTag of
                Inl _ \<Rightarrow> Inl (Error (js ''Failed to decrypt data''))
              | Inr _ \<Rightarrow>
                  let decrypted = gcm_crypt (suite V) (vault_key V) iv (base64_decode encrypted)
                  in if tag_verifies (suite V) (vault_key V) iv authTag (base64_decode encrypted)
                     then Inr (utf8_decode decrypted)
                     else Inl (Error (js ''Failed to decrypt data''))))"

text \<open>
  A vault to run the definitions on: the default key of \<^verbatim>\<open>config/constants.js\<close>, a
  keystream and a tag that depend on the nonce, the position and the ciphertext.
\<close>

definition demo_suite :: cipher_suite where
  "demo_suite =
     \<lparr> keystream = (\<lambda>key iv i. hd iv XOR of_nat (7 * i + 1)),
       tag_byte = (\<lambda>key iv ct i. sum_list iv + of_nat i + of_nat (length ct) + sum_list ct) \<rparr>"

definition demo_vault :: vault where
  "demo_vault = \<lparr> suite = demo_suite, ENCRYPTION_KEY = js ''default-32-char-encryption-key!!'' \<rparr>"

definition demo_entropy :: entropy where
  "demo_entropy = (\<lambda>i. of_nat (3 * i + 5))"

section \<open>JavaScript values\<close>

text \<open>
  Rows of the database, request bodies, webhook payloads and API replies are JavaScript
  values. Numbers are the integers (no claim depends on a fraction); an object is the
  list of its properties, the first entry for a name being the property.
\<close>

datatype jsval =
    JUndefined
  | JNull
  | JBool bool
  | JNum int
  | JStr jsstring
  | JArr "jsval list"
  | JObj "(jsstring \<times> jsval) list"

type_synonym object = "(jsstring \<times> jsval) list"

text \<open>\<open>obj[k]\<close> on an object: \<open>undefined\<close> for a property it does not have.\<close>

definition property :: "object \<Rightarrow> jsstring \<Rightarrow> jsval" where
  "property obj k = (case map_of obj k of Some v \<Rightarrow> v | None \<Rightarrow> JUndefined)"

text \<open>
  \<open>v.k\<close> on any value, for the property names the sources read (none of them is defined
  by a built-in prototype): a TypeError on \<open>null\<close> and \<open>undefined\<close>, \<open>undefined\<close> on the
  other primitives and on arrays.
\<close>

definition get :: "jsval \<Rightarrow> jsstring \<Rightarrow> error + jsval" where
  "get v k =
     (case v of
        JUndefined \<Rightarrow> Inl (TypeError (js ''Cannot read properties of undefined''))
      | JNull \<Rightarrow> Inl (TypeError (js ''Cannot read properties of null''))
      | JObj obj \<Rightarrow> Inr (property obj k)
      | _ \<Rightarrow> Inr JUndefined)"

text \<open>\<open>v?.k\<close>\<close>

definition get_opt :: "jsval \<Rightarrow> jsstring \<Rightarrow> jsval" where
  "get_opt v k = (case v of JObj obj \<Rightarrow> property obj k | _ \<Rightarrow> JUndefined)"

definition truthy :: "jsval \<Rightarrow> bool" where
  "truthy v =
     (case v of
        JUndefined \<Rightarrow> False
      | JNull \<Rightarrow> False
      | JBool b \<Rightarrow> b
      | JNum n \<Rightarrow> n \<noteq> 0
      | JStr s \<Rightarrow> s \<noteq> []
      | _ \<Rightarrow> True)"

text \<open>\<open>a || b\<close>\<close>

definition or_else :: "jsval \<Rightarrow> jsval \<Rightarrow> jsval" where
  "or_else a b = (if truthy a then a else b)"

text \<open>\<open>String(n)\<close> for an integer, and the string a template literal puts for a value.\<close>

fun digits :: "nat \<Rightarrow> jsstring" where
  "digits n = (if n < 10 then [of_nat (48 + n)] else digits (n div 10) @ [of_nat (48 + n mod 10)])"

definition show_int :: "int \<Rightarrow> jsstring" where
  "show_int i = (if i < 0 then 0x2D # digits (nat (- i)) else digits (nat i))"

fun join_str :: "jsstring \<Rightarrow> jsstring list \<Rightarrow> jsstring" where
  "join_str sep [] = []"
| "join_str sep [x] = x"
| "join_str sep (x # y # ys) = x @ sep @ join_str sep (y # ys)"

fun to_string :: "jsval \<Rightarrow> jsstring" where
  "to_string JUndefined = js ''undefined''"
| "to_string JNull = js ''null''"
| "to_string (JBool b) = (if b then js ''true'' else js ''false'')"
| "to_string (JNum n) = show_int n"
| "to_string (JStr s) = s"
| "to_string (JArr xs) =
     join_str (js '','') (map (\<lambda>x. if x = JNull \<or> x = JUndefined then [] else to_string x) xs)"
| "to_string (JObj obj) = js ''[object Object]''"

text \<open>The message of a thrown error, and the status code \<open>AppError\<close> carries.\<close>

fun message :: "error \<Rightarrow> jsstring" where
  "message (Error m) = m"
| "message (TypeError m) = m"
| "message (AppError m code) = m"

section \<open>The world the server acts on\<close>

text \<open>
  One state is threaded through every operation: the \<open>bots\<close> table, what the schema
  supplies on INSERT (the migrations are not part of the sources: the n-th inserted row
  gets the columns \<open>supplied n\<close> beside those the statement names), the write statements
  issued, the entropy behind \<^verbatim>\<open>crypto.randomBytes\<close>, the requests sent to the outside (Railway,
  Telegram, OpenAI) with the function that answers them, and the two in-memory maps of
  the in-process runner.
\<close>

type_synonym row = object

datatype db_write =
    INSERT row
  | UPDATE jsval object
  | INCREMENT_MESSAGES jsval
  | DELETE jsval

text \<open>
  An outgoing request: a GraphQL operation of the Railway API with its variables, a REST
  call of the Railway API (method, endpoint, body), a method of the Telegram Bot API
  (token, method, body), or an OpenAI chat completion (key, body). The reply is a
  rejected \<open>fetch\<close> (with the error's message) or a response: status, text, and the text
  parsed as JSON when it parses.
\<close>

datatype request =
    GraphQL string jsval
  | Rest string jsstring jsval
  | Telegram jsval string jsval
  | OpenAI jsval jsval

datatype reply =
    Unreachable jsstring
  | Http nat jsstring "jsval option"

record running_bot =
  rb_botId :: jsval
  rb_token :: jsval
  rb_openaiKey :: jsval
  rb_model :: jsval
  rb_systemPrompt :: jsval

record world =
  bots :: "row list"
  inserted :: nat
  supplied :: "nat \<Rightarrow> row"
  now :: jsval
  db_writes :: "db_write list"
  entropy :: entropy
  sent :: "request list"
  network :: "request list \<Rightarrow> request \<Rightarrow> reply"
  runningBots :: "(jsval \<times> running_bot) list"
  conversations :: "(jsstring \<times> jsval list) list"

text \<open>
  What Node, its libraries and the configuration provide: the vault's cipher and key,
  \<^verbatim>\<open>JSON.stringify\<close>, the Unicode case mappings of \<^verbatim>\<open>String.prototype\<close>, and the environment
  variables the provisioners read.
\<close>

record deps =
  encryption :: vault
  JSON_stringify :: "jsval \<Rightarrow> jsval"
  toLowerCase :: "jsstring \<Rightarrow> jsstring"
  toUpperCase :: "jsstring \<Rightarrow> jsstring"
  RAILWAY_PUBLIC_DOMAIN :: jsval
  PROJECT_ID :: jsval
  ENVIRONMENT_ID :: jsval
  WORKER_REPO :: jsval
  WORKER_BRANCH :: jsval

text \<open>\<open>fetch\<close>: the request is recorded and the outside answers.\<close>

definition fetch :: "request \<Rightarrow> world \<Rightarrow> reply \<times> world" where
  "fetch req w = (network w (sent w) req, w\<lparr>sent := sent w @ [req]\<rparr>)"

definition ok :: "nat \<Rightarrow> bool" where
  "ok status = (200 \<le> status \<and> status \<le> 299)"

section \<open>Bot Record Store: models/Bot.js\<close>

text \<open>
  The statements of \<open>BotModel\<close> run against the \<open>bots\<close> table of the world. A parameter
  that is \<open>undefined\<close> reaches the database as NULL, and \<open>column = $n\<close> is never true of a
  NULL. Constraint violations and lost connections are not modelled: every statement is
  executed.
\<close>

definition pg :: "jsval \<Rightarrow> jsval" where
  "pg v = (if v = JUndefined then JNull else v)"

definition sql_eq :: "jsval \<Rightarrow> jsval \<Rightarrow> bool" where
  "sql_eq column param = (column \<noteq> JNull \<and> column \<noteq> JUndefined \<and> column = param)"

text \<open>\<open>SET k = v\<close> on one row.\<close>

fun assign :: "jsstring \<Rightarrow> jsval \<Rightarrow> row \<Rightarrow> row" where
  "assign k v [] = [(k, v)]"
| "assign k v ((k', v') # r) = (if k' = k then (k, v) # r else (k', v') # assign k v r)"

fun assign_all :: "object \<Rightarrow> row \<Rightarrow> row" where
  "assign_all [] r = r"
| "assign_all ((k, v) # assignments) r = assign_all assignments (assign k (pg v) r)"

text \<open>
  \<^verbatim>\<open>sanitize(bot)\<close>: \<^verbatim>\<open>const { platform_token_encrypted, ai_token_encrypted, ...sanitized } = bot\<close>
\<close>

definition sanitize_row :: "row \<Rightarrow> row" where
  "sanitize_row row0 =
     filter (\<lambda>(k, v). k \<noteq> js ''platform_token_encrypted'' \<and> k \<noteq> js ''ai_token_encrypted'') row0"

definition sanitize :: "row option \<Rightarrow> row option" where
  "sanitize row0 = (case row0 of None \<Rightarrow> None | Some r \<Rightarrow> Some (sanitize_row r))"

text \<open>
  \<open>encrypt\<close> and \<open>decrypt\<close> on a value that need not be a string: \<^verbatim>\<open>cipher.update\<close> and
  \<^verbatim>\<open>Buffer.from\<close> throw on what is not one (a text column holds a string or NULL), inside
  the \<^verbatim>\<open>try\<close> and after the nonce was drawn.
\<close>

definition encrypt_value :: "vault \<Rightarrow> jsval \<Rightarrow> entropy \<Rightarrow> (error + jsstring) \<times> entropy" where
  "encrypt_value V text e =
     (case text of
        JStr s \<Rightarrow> encrypt V s e
      | _ \<Rightarrow> (Inl (Error (js ''Failed to encrypt data'')), snd (randomBytes 16 e)))"

definition decrypt_value :: "vault \<Rightarrow> jsval \<Rightarrow> error + jsstring" where
  "decrypt_value V encryptedData =
     (case encryptedData of
        JStr s \<Rightarrow> decrypt V s
      | _ \<Rightarrow> Inl (Error (js ''Failed to decrypt data'')))"



text \<open>\<^verbatim>\<open>SELECT * FROM bots WHERE id = $1\<close>, first row.\<close>

definition select_by :: "jsstring \<Rightarrow> jsval \<Rightarrow> world \<Rightarrow> row option" where
  "select_by column v w = find (\<lambda>r. sql_eq (property r column) v) (bots w)"


definition findByIdWithTokens :: "deps \<Rightarrow> jsval \<Rightarrow> world \<Rightarrow> error + row option" where
  "findByIdWithTokens D botId w =
     (case select_by (js ''id'') botId w of
        None \<Rightarrow> Inr None
      | Some row0 \<Rightarrow>
          (case decrypt_value (encryption D) (property row0 (js ''platform_token_encrypted'')) of
             Inl err \<Rightarrow> Inl err
           | Inr platformToken' \<Rightarrow>
               (case decrypt_value (encryption D) (property row0 (js ''ai_token_encrypted'')) of
                  Inl err \<Rightarrow> Inl err
                | Inr aiToken' \<Rightarrow>
                    Inr (Some ((js ''platformToken'', JStr platformToken') #
                               (js ''aiToken'', JStr aiToken') # sanitize_row row0)))))"




definition allowedFields :: "jsstring list" where
  "allowedFields =
     map js [''name'', ''status'', ''ai_provider'', ''ai_model'', ''system_prompt'', ''config_json'',
             ''internal_port'', ''process_pid'', ''memory_usage_mb'', ''cpu_usage_percent'',
             ''last_started_at'', ''last_activity_at'', ''total_messages'', ''railway_service_id'',
             ''webhook_url'']"

text \<open>
  \<^verbatim>\<open>update(id, updates)\<close>: the allowed entries of \<open>updates\<close> in their order, then the
  re-encrypted AI token when \<open>updates.ai_token\<close> is truthy; \<open>null\<close> without a query when
  nothing is left; else one UPDATE whose first returned row is sanitized.
\<close>

definition regular_fields :: "deps \<Rightarrow> object \<Rightarrow> object" where
  "regular_fields D updates =
     map (\<lambda>(key, v). (key, if key = js ''config_json'' then JSON_stringify D v else v))
       (filter (\<lambda>(key, v). key \<in> set allowedFields) updates)"

definition run_update :: "jsval \<Rightarrow> object \<Rightarrow> world \<Rightarrow> row option \<times> world" where
  "run_update botId assignments w =
     (let w' = w\<lparr>bots := map (\<lambda>r. if sql_eq (property r (js ''id'')) botId
                                     then assign_all assignments r else r) (bots w),
                  db_writes := db_writes w @ [UPDATE botId assignments]\<rparr>
      in (sanitize (select_by (js ''id'') botId w'), w'))"

definition update :: "deps \<Rightarrow> jsval \<Rightarrow> object \<Rightarrow> world \<Rightarrow> (error + row option) \<times> world" where
  "update D botId updates w =
     (if truthy (property updates (js ''ai_token'')) then
        (case encrypt_value (encryption D) (property updates (js ''ai_token'')) (entropy w) of
           (Inl err, e1) \<Rightarrow> (Inl err, w\<lparr>entropy := e1\<rparr>)
         | (Inr blob, e1) \<Rightarrow>
             (case run_update botId (regular_fields D updates @ [(js ''ai_token_encrypted'', JStr blob)])
                     (w\<lparr>entropy := e1\<rparr>) of
                (r, w') \<Rightarrow> (Inr r, w')))
      else if regular_fields D updates = [] then (Inr None, w)
      else (case run_update botId (regular_fields D updates) w of (r, w') \<Rightarrow> (Inr r, w')))"

text \<open>\<^verbatim>\<open>UPDATE bots SET total_messages = total_messages + 1, last_activity_at = NOW()\<close>\<close>

definition incrementMessages :: "jsval \<Rightarrow> world \<Rightarrow> world" where
  "incrementMessages botId w =
     w\<lparr>bots := map (\<lambda>r. if sql_eq (property r (js ''id'')) botId
                          then assign (js ''last_activity_at'') (now w)
                                 (assign (js ''total_messages'')
                                    (case property r (js ''total_messages'') of
                                       JNum n \<Rightarrow> JNum (n + 1) | _ \<Rightarrow> JNull) r)
                          else r) (bots w),
       db_writes := db_writes w @ [INCREMENT_MESSAGES botId]\<rparr>"

definition delete :: "jsval \<Rightarrow> world \<Rightarrow> world" where
  "delete botId w =
     w\<lparr>bots := filter (\<lambda>r. \<not> sql_eq (property r (js ''id'')) botId) (bots w),
       db_writes := db_writes w @ [DELETE botId]\<rparr>"

text \<open>\<^verbatim>\<open>SELECT COUNT(*) FROM bots WHERE user_id = $1\<close>\<close>

definition countByUser :: "jsval \<Rightarrow> world \<Rightarrow> int" where
  "countByUser uid w =
     int (length (filter (\<lambda>r. sql_eq (property r (js ''user_id'')) uid) (bots w)))"


section \<open>A small world to run the definitions on\<close>

text \<open>
  ASCII case mappings stand in for \<^verbatim>\<open>toLowerCase\<close> and \<^verbatim>\<open>toUpperCase\<close>, \<open>to_string\<close> for
  \<^verbatim>\<open>JSON.stringify\<close>. The table holds one bot of user \<open>u1\<close>; both its encrypted columns hold
  the blob of the token \<open>ab\<close> under the demonstration vault.
\<close>

definition demo_deps :: deps where
  "demo_deps =
     \<lparr> encryption = demo_vault,
       JSON_stringify = (\<lambda>v. JStr (to_string v)),
       toLowerCase = map (\<lambda>c. if 65 \<le> unat c \<and> unat c \<le> 90 then c + 32 else c),
       toUpperCase = map (\<lambda>c. if 97 \<le> unat c \<and> unat c \<le> 122 then c - 32 else c),
       RAILWAY_PUBLIC_DOMAIN = JStr (js ''app.example''),
       PROJECT_ID = JStr (js ''p1''),
       ENVIRONMENT_ID = JStr (js ''e1''),
       WORKER_REPO = JStr (js ''mnanass05/clawdbot-railway-template''),
       WORKER_BRANCH = JStr (js ''main'') \<rparr>"

definition demo_bot :: "string \<Rightarrow> string \<Rightarrow> jsval \<Rightarrow> row" where
  "demo_bot bid status service =
     [(js ''id'', JStr (js bid)),
      (js ''user_id'', JStr (js ''u1'')),
      (js ''name'', JStr (js ''Helper'')),
      (js ''platform'', JStr (js ''telegram'')),
      (js ''platform_token_encrypted'',
       JStr (js ''BQgLDhEUFxodICMmKSwvMo6PkJGSk5SVlpeYmZqbnJ1lbw=='')),
      (js ''ai_provider'', JStr (js ''OPENAI'')),
      (js ''ai_token_encrypted'',
       JStr (js ''BQgLDhEUFxodICMmKSwvMo6PkJGSk5SVlpeYmZqbnJ1lbw=='')),
      (js ''ai_model'', JStr (js ''gpt-4o'')),
      (js ''system_prompt'', JNull),
      (js ''status'', JStr (js status)),
      (js ''railway_service_id'', service),
      (js ''webhook_url'', JNull),
      (js ''total_messages'', JNum 0)]"

definition demo_world :: "row list \<Rightarrow> world" where
  "demo_world rows =
     \<lparr> bots = rows,
       inserted = 0,
       supplied = (\<lambda>n. [(js ''id'', JStr (js ''b'' @ digits n)),
                         (js ''status'', JStr (js ''deploying'')),
                         (js ''railway_service_id'', JNull),
                         (js ''total_messages'', JNum 0)]),
       now = JNum 1700000000,
       db_writes = [],
       entropy = demo_entropy,
       sent = [],
       network = (\<lambda>history req. Unreachable (js ''fetch failed'')),
       runningBots = [],
       conversations = [] \<rparr>"


section \<open>Lemmas: base64 and UTF-8 round trips\<close>

lemma unat_byte_less: "unat (b :: byte) < 256"
  using unsigned_less [of b] by simp

lemma unat_unit_of_nat: "n < 65536 \<Longrightarrow> unat (of_nat n :: 16 word) = n"
  by (simp add: unat_of_nat)

lemma unbase64_b64_char:
  assumes "i < 64"
  shows "unbase64 (b64_char i) = Some i"
proof -
  define n where "n = (if i < 26 then 65 + i else if i < 52 then 71 + i else if i < 62 then i - 4
             else if i = 62 then 43 else 47)"
  have n: "n < 65536" using assms by (auto simp add: n_def)
  have "b64_char i = of_nat n" by (simp only: b64_char_def n_def)
  then have u: "unat (b64_char i) = n" using n by (simp only: unat_unit_of_nat)
  show ?thesis
    unfolding unbase64_def u Let_def using assms by (auto simp add: n_def)
qed

lemma unbase64_pad: "unbase64 61 = None"
  by (simp add: unbase64_def)

lemma sextet1_less: "a < 256 \<Longrightarrow> (a::nat) div 4 < 64" by simp
lemma sextet2_less: "b < 256 \<Longrightarrow>  (a::nat) mod 4 * 16 + b div 16 < 64"
proof -
  assume "b < 256"
  then have "b div 16 < 16" by simp
  moreover have "a mod 4 < 4" by simp
  ultimately show ?thesis by linarith
qed
lemma sextet3_less: "c < 256 \<Longrightarrow>  (b::nat) mod 16 * 4 + c div 64 < 64"
proof -
  assume "c < 256"
  then have "c div 64 < 4" by simp
  moreover have "b mod 16 < 16" by simp
  ultimately show ?thesis by linarith
qed
lemma sextet_pad_less: "(b::nat) mod 16 * 4 < 64" "(a::nat) mod 4 * 16 < 64"
proof -
  have "b mod 16 < 16" "a mod 4 < 4" by simp_all
  then show "(b::nat) mod 16 * 4 < 64" "(a::nat) mod 4 * 16 < 64" by linarith+
qed

lemma join_byte1: "b < 256 \<Longrightarrow> (a::nat) div 4 * 4 + (a mod 4 * 16 + b div 16) div 16 = a"
  by (simp add: div_mult2_eq [symmetric])
lemma join_byte2: "b < 256 \<Longrightarrow> c < 256 \<Longrightarrow> ((a::nat) mod 4 * 16 + b div 16) mod 16 * 16 + (b mod 16 * 4 + c div 64) div 4 = b"
proof -
  assume "b < 256" "c < 256"
  then have "b div 16 mod 16 = b div 16" "c div 256 = 0" by simp_all
  then show ?thesis by (simp add: div_mult2_eq [symmetric] mod_mult2_eq)
qed
lemma join_byte3: "c < 256 \<Longrightarrow> ((b::nat) mod 16 * 4 + c div 64) mod 4 * 64 + c mod 64 = c"
proof -
  assume "c < 256"
  then have "c div 64 mod 4 = c div 64" by simp
  then show ?thesis by (simp add: mod_mult2_eq)
qed
lemma join_byte2_pad: "b < 256 \<Longrightarrow> ((a::nat) mod 4 * 16 + b div 16) mod 16 * 16 + (b mod 16 * 4) div 4 = b"
proof -
  assume "b < 256"
  then have "b div 16 mod 16 = b div 16" by simp
  then show ?thesis by (simp add: mod_mult2_eq)
qed
lemma join_byte1_pad: "(a::nat) div 4 * 4 + (a mod 4 * 16) div 16 = a"
  by (simp add: div_mult2_eq [symmetric] mod_mult2_eq)

lemma of_nat_unat_byte: "of_nat (unat (b::byte)) = b"
  by simp

lemma base64_roundtrip: "base64_decode (base64_encode bs) = bs"
  unfolding base64_decode_def
proof (induction bs rule: base64_encode.induct)
  case (1 a b c rest)
  note B = unat_byte_less [of a] unat_byte_less [of b] unat_byte_less [of c]
  have "sextets (base64_encode (a # b # c # rest)) =
         unat a div 4 # (unat a mod 4 * 16 + unat b div 16) #
         (unat b mod 16 * 4 + unat c div 64) # unat c mod 64 # sextets (base64_encode rest)"
    using B by (simp add: unbase64_b64_char sextet1_less sextet2_less sextet3_less)
  then show ?case
    using 1 B by (simp add: join_byte1 join_byte2 join_byte3)
next
  case (2 a b)
  note B = unat_byte_less [of a] unat_byte_less [of b]
  have "sextets (base64_encode [a, b]) =
         [unat a div 4, unat a mod 4 * 16 + unat b div 16, unat b mod 16 * 4]"
    using B by (simp add: unbase64_b64_char unbase64_pad sextet1_less sextet2_less sextet_pad_less)
  then show ?case
    using B by (simp add: join_byte1 join_byte2_pad)
next
  case (3 a)
  have "sextets (base64_encode [a]) = [unat a div 4, unat a mod 4 * 16]"
    using unat_byte_less [of a] by (simp add: unbase64_b64_char unbase64_pad sextet1_less sextet_pad_less)
  then show ?case
    by (simp add: join_byte1_pad)
next
  case 4
  show ?case by simp
qed
















section \<open>Lemmas: Credential Vault\<close>

lemma xor_twice: "length d = length ks \<Longrightarrow> map2 (XOR) (map2 (XOR) d ks) ks = (d :: byte list)"
proof (induction d ks rule: list_induct2)
  case Nil
  show ?case by simp
next
  case (Cons x xs y ys)
  then show ?case by (simp add: xor.assoc)
qed

lemma length_gcm_crypt: "length (gcm_crypt S key iv data) = length data"
  by (simp add: gcm_crypt_def)

lemma gcm_crypt_involution: "gcm_crypt S key iv (gcm_crypt S key iv data) = data"
  unfolding gcm_crypt_def by (simp add: xor_twice)

lemma length_getAuthTag: "length (getAuthTag S key iv ct) = 16"
  by (simp add: getAuthTag_def)

lemma randomBytes_length: "randomBytes n e = (bs, e') \<Longrightarrow> length bs = n"
  by (auto simp add: randomBytes_def)

text \<open>What \<open>encrypt\<close> returns under a 32-byte key: the base64 of nonce, tag and ciphertext.\<close>

lemma encrypt_blob:
  assumes key: "length (vault_key V) = 32" and rb: "randomBytes 16 e = (iv, e')"
  shows "encrypt V P e =
    (Inr (base64_encode
       (iv @ getAuthTag (suite V) (vault_key V) iv
               (gcm_crypt (suite V) (vault_key V) iv (utf8_encode P)) @
        gcm_crypt (suite V) (vault_key V) iv (utf8_encode P))), e')"
proof -
  have "length iv = 16" using rb by (rule randomBytes_length)
  then have "iv \<noteq> []" by auto
  then show ?thesis
    using key by (simp add: encrypt_def rb createCipheriv_def base64_roundtrip)
qed

text \<open>What \<open>decrypt\<close> does with the base64 of a 16-byte nonce, a 16-byte tag and a ciphertext.\<close>

lemma decrypt_framed:
  assumes key: "length (vault_key V) = 32" and liv: "length iv = 16" and lt: "length t = 16"
  shows "decrypt V (base64_encode (iv @ t @ ct)) =
    (if t = getAuthTag (suite V) (vault_key V) iv ct
     then Inr (utf8_decode (gcm_crypt (suite V) (vault_key V) iv ct))
     else Inl (Error (js ''Failed to decrypt data'')))"
proof -
  have sl: "take 16 (iv @ t @ ct) = iv" "take 16 (drop 16 (iv @ t @ ct)) = t"
    "drop 32 (iv @ t @ ct) = ct"
    using liv lt by simp_all
  have ne: "iv \<noteq> []" using liv by auto
  have tv: "tag_verifies (suite V) (vault_key V) iv t ct = (t = getAuthTag (suite V) (vault_key V) iv ct)"
    by (simp add: tag_verifies_def lt length_getAuthTag)
  show ?thesis
    unfolding decrypt_def base64_roundtrip Let_def sl
    using key ne lt by (simp add: createDecipheriv_def createCipheriv_def setAuthTag_def tv)
qed




text \<open>
  A lone surrogate is encoded as U+FFFD (bytes EF BF BD), whatever the cipher suite: the
  round trip returns U+FFFD, not the unit that went in.
\<close>

lemma lone_surrogate_replaced:
  assumes key: "length (vault_key V) = 32"
  shows "\<exists>blob. fst (encrypt V [0xD800] e) = Inr blob \<and> decrypt V blob = Inr [0xFFFD]"
proof -
  obtain iv e' where rb: "randomBytes 16 e = (iv, e')" by (cases "randomBytes 16 e")
  have liv: "length iv = 16" using rb by (rule randomBytes_length)
  have "utf8_decode (utf8_encode [0xD800]) = [0xFFFD]"
    by (simp add: utf8_decode_def utf8_bytes_def is_high_def utf16_units_def)
  then show ?thesis
    unfolding encrypt_blob [OF key rb]
    by (simp add: decrypt_framed [OF key liv length_getAuthTag] gcm_crypt_involution)
qed

text \<open>
  The last character of a final base64 group of two carries four bits the decoder drops.
\<close>

lemma slack_bits_ignored: "q div 16 = q' div 16 \<Longrightarrow> unsextets [p, q] = unsextets [p, q']"
  by simp

subsection \<open>The demonstration vault, evaluated\<close>














section \<open>Claims about the Credential Vault\<close>







section \<open>Lemmas: Bot Record Store\<close>

lemma of_char_less: "(of_char c :: nat) < 256"
proof -
  have "(of_char c :: nat) mod 256 < 256" by (rule mod_less_divisor) simp
  then show ?thesis by (simp only: of_char_mod_256)
qed

lemma js_unit_inject: "(of_nat (of_char a) :: 16 word) = of_nat (of_char b) \<longleftrightarrow> a = b"
proof
  assume eq: "(of_nat (of_char a) :: 16 word) = of_nat (of_char b)"
  have a: "(of_char a :: nat) < 65536"
    by (rule less_trans [OF of_char_less]) simp
  have b: "(of_char b :: nat) < 65536"
    by (rule less_trans [OF of_char_less]) simp
  from eq have "unat (of_nat (of_char a) :: 16 word) = unat (of_nat (of_char b) :: 16 word)"
    by simp
  then have "(of_char a :: nat) = of_char b"
    using a b by (simp only: unat_unit_of_nat)
  then show "a = b" by simp
qed simp

lemma js_inject [simp]: "js a = js b \<longleftrightarrow> a = b"
proof (induction a arbitrary: b)
  case Nil
  then show ?case by (auto simp add: js_def)
next
  case (Cons x xs)
  then show ?case by (cases b) (auto simp add: js_def js_unit_inject)
qed

lemma js_Nil [simp]: "js s = [] \<longleftrightarrow> s = []"
  by (simp add: js_def)











lemma js_mem_map [simp]: "js a \<in> set (map js xs) \<longleftrightarrow> a \<in> set xs"
  by (auto simp add: image_iff)

lemma regular_fields_Nil:
  assumes "\<forall>k \<in> fst ` set updates. k \<notin> set allowedFields"
  shows "regular_fields D updates = []"
proof -
  have "filter (\<lambda>(key, v). key \<in> set allowedFields) updates = []"
    using assms by (auto simp add: filter_empty_conv)
  then show ?thesis by (simp add: regular_fields_def)
qed

lemma property_absent: "k \<notin> fst ` set obj \<Longrightarrow> property obj k = JUndefined"
  by (simp add: property_def map_of_eq_None_iff [THEN iffD2])

subsection \<open>The demonstration world, evaluated\<close>




section \<open>Claims about the Bot Record Store\<close>



text \<open>
  Claim C10. For every bot id and every \<open>updates\<close> object that contains no allowed field
  and no \<open>ai_token\<close> key, \<open>update\<close> returns \<open>null\<close> and the world is the one it started in:
  no statement was issued and every row is unchanged.
\<close>

theorem update_nothing_to_set:
  assumes "\<forall>k \<in> fst ` set updates. k \<notin> set allowedFields"
    and "js ''ai_token'' \<notin> fst ` set updates"
  shows "update D botId updates w = (Inr None, w)"
  by (simp add: update_def regular_fields_Nil [OF assms(1)] property_absent [OF assms(2)]
      truthy_def)

theorem update_nothing_to_set_witness:
  "js ''id'' \<notin> set allowedFields \<and> js ''platform_token_encrypted'' \<notin> set allowedFields \<and>
   js ''ai_token'' \<notin>
     fst ` set [(js ''id'', JStr (js ''b2'')), (js ''platform_token_encrypted'', JStr (js ''x''))] \<and>
   update demo_deps (JStr (js ''b1''))
     [(js ''id'', JStr (js ''b2'')), (js ''platform_token_encrypted'', JStr (js ''x''))]
     (demo_world [demo_bot ''b1'' ''running'' JNull]) =
   (Inr None, demo_world [demo_bot ''b1'' ''running'' JNull])"
proof -
  have a1: "js ''id'' \<notin> set allowedFields"
    and a2: "js ''platform_token_encrypted'' \<notin> set allowedFields"
    by (simp_all add: allowedFields_def)
  then have a: "\<forall>k \<in> fst ` set [(js ''id'', JStr (js ''b2'')),
        (js ''platform_token_encrypted'', JStr (js ''x''))]. k \<notin> set allowedFields"
    by simp
  have b: "js ''ai_token'' \<notin>
     fst ` set [(js ''id'', JStr (js ''b2'')), (js ''platform_token_encrypted'', JStr (js ''x''))]"
    by simp
  show ?thesis
    by (intro conjI a1 a2 b update_nothing_to_set [OF a b])
qed

end
